theory Spec2Isabelle
  imports Complex_Main
begin

section \<open>Context assembler: \<^verbatim>\<open>app/llm_service.py\<close>\<close>

subsection \<open>Data\<close>

text \<open>
  A turn is the dict \<^verbatim>\<open>{"role": ..., "content": ...}\<close> appended to \<^verbatim>\<open>messages\<close>.
\<close>

record turn =
  role :: string
  content :: string

text \<open>
  A few-shot example is a dict whose keys \<^verbatim>\<open>"user"\<close> and \<^verbatim>\<open>"ai"\<close> are tested with
  \<^verbatim>\<open>in\<close>, so it is a partial map; other keys are never read.
\<close>

type_synonym example = "string \<rightharpoonup> string"

text \<open>
  An entry of \<^verbatim>\<open>chat_history\<close> is a dict with the two keys \<^verbatim>\<open>"sender_type"\<close> and
  \<^verbatim>\<open>"content"\<close> (the parameter's comment says so, and the only caller builds exactly
  these two keys), both read by subscript.
\<close>

record history_entry =
  h_sender_type :: string
  h_content :: string

text \<open>
  The keyword arguments of \<^verbatim>\<open>client.chat.completions.create\<close>. The temperature is a
  decimal literal handed through unchanged; it is kept as a rational.
\<close>

record request =
  req_model :: string
  req_messages :: "turn list"
  req_temperature :: rat
  req_max_tokens :: int

text \<open>
  What the body of the \<^verbatim>\<open>try\<close> meets: the awaited call raises, or it returns a
  completion, of which only the contents of \<^verbatim>\<open>choices\<close> are read.
\<close>

datatype completion = Raises | Choices "string list"

type_synonym gateway = "request \<Rightarrow> completion"

subsection \<open>\<^verbatim>\<open>get_qwen_response\<close>\<close>

text \<open>The loop of lines 55-59: \<^verbatim>\<open>messages\<close> is the list being appended to.\<close>

fun add_few_shot_examples :: "turn list \<Rightarrow> example list \<Rightarrow> turn list" where
  "add_few_shot_examples msgs [] = msgs"
| "add_few_shot_examples msgs (example # rest) =
     (let msgs1 = (case example ''user'' of
                     Some u \<Rightarrow> msgs @ [\<lparr>role = ''user'', content = u\<rparr>]
                   | None \<Rightarrow> msgs);
          msgs2 = (case example ''ai'' of
                     Some a \<Rightarrow> msgs1 @ [\<lparr>role = ''assistant'', content = a\<rparr>]
                   | None \<Rightarrow> msgs1)
      in add_few_shot_examples msgs2 rest)"

text \<open>The loop of lines 62-65.\<close>

fun add_chat_history :: "turn list \<Rightarrow> history_entry list \<Rightarrow> turn list" where
  "add_chat_history msgs [] = msgs"
| "add_chat_history msgs (msg # rest) =
     (let role_type = (if h_sender_type msg = ''user'' then ''user'' else ''assistant'')
      in add_chat_history (msgs @ [\<lparr>role = role_type, content = h_content msg\<rparr>]) rest)"

text \<open>
  Lines 48-68: the value of \<^verbatim>\<open>messages\<close> when the \<^verbatim>\<open>try\<close> is entered.
  \<^verbatim>\<open>if few_shot_examples:\<close> is false for \<^verbatim>\<open>None\<close> and for the empty list.
\<close>

definition build_messages ::
  "string \<Rightarrow> history_entry list \<Rightarrow> string \<Rightarrow> example list option \<Rightarrow> turn list" where
  "build_messages system_prompt chat_history user_message few_shot_examples =
     (let msgs0 = [] @ [\<lparr>role = ''system'', content = system_prompt\<rparr>];
          msgs1 = (case few_shot_examples of
                     None \<Rightarrow> msgs0
                   | Some exs \<Rightarrow> if exs = [] then msgs0 else add_few_shot_examples msgs0 exs);
          msgs2 = add_chat_history msgs1 chat_history
      in msgs2 @ [\<lparr>role = ''user'', content = user_message\<rparr>])"

definition fallback_reply :: string where
  "fallback_reply = ''Sorry, I am unable to respond at the moment.''"

text \<open>
  Lines 70-80. \<^verbatim>\<open>choices[0]\<close> on an empty list raises inside the \<^verbatim>\<open>try\<close>, so it ends
  in the handler too. The result is the returned string together with the request that
  was submitted to the gateway.
\<close>

definition get_qwen_response ::
  "gateway \<Rightarrow> string \<Rightarrow> history_entry list \<Rightarrow> string \<Rightarrow> example list option \<Rightarrow>
   rat \<Rightarrow> int \<Rightarrow> string \<Rightarrow> string \<times> request" where
  "get_qwen_response client system_prompt chat_history user_message few_shot_examples
       temperature max_tokens model =
     (let req = \<lparr>req_model = model,
                 req_messages = build_messages system_prompt chat_history user_message
                                  few_shot_examples,
                 req_temperature = temperature,
                 req_max_tokens = max_tokens\<rparr>
      in (case client req of
            Raises \<Rightarrow> (fallback_reply, req)
          | Choices [] \<Rightarrow> (fallback_reply, req)
          | Choices (c # _) \<Rightarrow> (c, req)))"

subsection \<open>The construction order as the specification words it\<close>

text \<open>
  One system turn; per example a user turn and then an assistant turn, each only if that
  side is present; one turn per history entry; one final user turn.
\<close>

definition spec_example_turns :: "example \<Rightarrow> turn list" where
  "spec_example_turns ex =
     (case ex ''user'' of Some u \<Rightarrow> [\<lparr>role = ''user'', content = u\<rparr>] | None \<Rightarrow> []) @
     (case ex ''ai'' of Some a \<Rightarrow> [\<lparr>role = ''assistant'', content = a\<rparr>] | None \<Rightarrow> [])"

definition spec_history_turn :: "history_entry \<Rightarrow> turn" where
  "spec_history_turn h =
     (if h_sender_type h = ''user'' then \<lparr>role = ''user'', content = h_content h\<rparr>
      else \<lparr>role = ''assistant'', content = h_content h\<rparr>)"

definition spec_turns ::
  "string \<Rightarrow> example list \<Rightarrow> history_entry list \<Rightarrow> string \<Rightarrow> turn list" where
  "spec_turns S exs hist new_text =
     [\<lparr>role = ''system'', content = S\<rparr>] @
     concat (map spec_example_turns exs) @
     map spec_history_turn hist @
     [\<lparr>role = ''user'', content = new_text\<rparr>]"

definition examples_of :: "example list option \<Rightarrow> example list" where
  "examples_of fs = (case fs of None \<Rightarrow> [] | Some exs \<Rightarrow> exs)"

section \<open>Remote inference gateway: speech and storage (\<^verbatim>\<open>app/llm_service.py\<close>)\<close>

type_synonym bytes = string

text \<open>The module-level settings read from the process environment.\<close>

record config =
  QINIU_OPENAI_API_KEY :: string
  QINIU_OPENAI_BASE_URL :: string
  QINIU_DOMAIN :: string

text \<open>
  What an \<^verbatim>\<open>httpx\<close> exchange can do to the code after \<^verbatim>\<open>client.post\<close>: the post
  itself raises; \<^verbatim>\<open>raise_for_status\<close> raises \<^verbatim>\<open>HTTPStatusError\<close>; decoding the
  body or reading it as an object raises; or the expression that picks the payload
  field out of the decoded body has a value, \<open>None\<close> when the field is missing.
\<close>

datatype http_reply = RequestError | StatusError | MalformedBody | Payload "string option"

record tts_request =
  tts_url :: string
  tts_authorization :: string
  tts_voice_type :: string
  tts_encoding :: string
  tts_speed_ratio :: rat
  tts_text :: string

record asr_request =
  asr_url :: string
  asr_authorization :: string
  asr_audio_url :: string
  asr_encoding :: string
  asr_language :: string

text \<open>
  \<^verbatim>\<open>put_data\<close> raises, or returns \<^verbatim>\<open>ret, info\<close>: whether \<^verbatim>\<open>ret\<close> is truthy, and
  \<^verbatim>\<open>info.status_code\<close>.
\<close>

datatype put_outcome = PutRaises | PutResult bool nat

text \<open>
  The collaborators outside the repository: the generated uuid, the file system, the
  object store, the two speech endpoints and the library's base64 decoder (\<open>None\<close>
  where it raises).
\<close>

record environment =
  uuid4 :: string
  read_file :: "string \<Rightarrow> bytes option"
  put_data :: "string \<Rightarrow> bytes \<Rightarrow> put_outcome"
  asr_post :: "asr_request \<Rightarrow> http_reply"
  tts_post :: "tts_request \<Rightarrow> http_reply"
  b64decode :: "string \<Rightarrow> bytes option"

text \<open>Every call that leaves the process, in the order made.\<close>

datatype call =
    ChatCompletion request
  | KodoUpload string bytes
  | AsrPost asr_request
  | TtsPost tts_request

text \<open>Lines 144-158: the url, the headers and the payload of the request.\<close>

definition tts_payload :: "config \<Rightarrow> string \<Rightarrow> string \<Rightarrow> tts_request" where
  "tts_payload cfg text voice_type =
     \<lparr>tts_url = QINIU_OPENAI_BASE_URL cfg @ ''/voice/tts'',
      tts_authorization = ''Bearer '' @ QINIU_OPENAI_API_KEY cfg,
      tts_voice_type = voice_type,
      tts_encoding = ''mp3'',
      tts_speed_ratio = 1,
      tts_text = text\<rparr>"

text \<open>
  Lines 163-179. A missing or empty \<^verbatim>\<open>data\<close> raises \<^verbatim>\<open>ValueError\<close> inside the
  \<^verbatim>\<open>try\<close>; both handlers return \<^verbatim>\<open>b""\<close>.
\<close>

definition get_tts_audio :: "config \<Rightarrow> environment \<Rightarrow> string \<Rightarrow> string \<Rightarrow> bytes \<times> call list" where
  "get_tts_audio cfg env text voice_type =
     (let payload = tts_payload cfg text voice_type
      in (case tts_post env payload of
            RequestError \<Rightarrow> ([], [TtsPost payload])
          | StatusError \<Rightarrow> ([], [TtsPost payload])
          | MalformedBody \<Rightarrow> ([], [TtsPost payload])
          | Payload None \<Rightarrow> ([], [TtsPost payload])
          | Payload (Some base64_audio) \<Rightarrow>
              if base64_audio = [] then ([], [TtsPost payload])
              else (case b64decode env base64_audio of
                      None \<Rightarrow> ([], [TtsPost payload])
                    | Some audio \<Rightarrow> (audio, [TtsPost payload]))))"

text \<open>Lines 181-202.\<close>

definition upload_audio_to_qiniu_kodo ::
  "config \<Rightarrow> environment \<Rightarrow> bytes \<Rightarrow> string \<Rightarrow> string option \<times> call list" where
  "upload_audio_to_qiniu_kodo cfg env audio_content filename =
     (case put_data env filename audio_content of
        PutRaises \<Rightarrow> (None, [KodoUpload filename audio_content])
      | PutResult ret status_code \<Rightarrow>
          if ret \<and> status_code = 200
          then (Some (''https://'' @ QINIU_DOMAIN cfg @ ''/'' @ filename),
                [KodoUpload filename audio_content])
          else (None, [KodoUpload filename audio_content]))"

text \<open>\<^verbatim>\<open>os.path.basename\<close>: what follows the last slash.\<close>

definition basename :: "string \<Rightarrow> string" where
  "basename p = rev (takeWhile (\<lambda>c. c \<noteq> CHR ''/'') (rev p))"

datatype audio_file_like = BytesIO bytes | FilePath string | OtherObject

text \<open>Lines 98-134: from the upload on, with the audio and its file name in hand.\<close>

definition transcribe_uploaded ::
  "config \<Rightarrow> environment \<Rightarrow> bytes \<Rightarrow> string \<Rightarrow> string \<times> call list" where
  "transcribe_uploaded cfg env audio_content filename =
     (case upload_audio_to_qiniu_kodo cfg env audio_content filename of
        (None, cs) \<Rightarrow> ([], cs)
      | (Some public_url, cs) \<Rightarrow>
          if public_url = [] then ([], cs)
          else
            (let payload = \<lparr>asr_url = QINIU_OPENAI_BASE_URL cfg @ ''/voice/asr'',
                            asr_authorization = ''Bearer '' @ QINIU_OPENAI_API_KEY cfg,
                            asr_audio_url = public_url,
                            asr_encoding = ''webm'',
                            asr_language = ''zh''\<rparr>
             in (case asr_post env payload of
                   RequestError \<Rightarrow> ([], cs @ [AsrPost payload])
                 | StatusError \<Rightarrow> ([], cs @ [AsrPost payload])
                 | MalformedBody \<Rightarrow> ([], cs @ [AsrPost payload])
                 | Payload None \<Rightarrow> ([], cs @ [AsrPost payload])
                 | Payload (Some transcript) \<Rightarrow>
                     if transcript = [] then ([], cs @ [AsrPost payload])
                     else (transcript, cs @ [AsrPost payload]))))"

text \<open>
  Lines 82-140. The \<^verbatim>\<open>ValueError\<close> of the last branch and a failing \<^verbatim>\<open>open\<close> are
  raised inside the \<^verbatim>\<open>try\<close>, so both end in the handler that returns the empty string.
\<close>

definition get_asr_transcript ::
  "config \<Rightarrow> environment \<Rightarrow> audio_file_like \<Rightarrow> string \<times> call list" where
  "get_asr_transcript cfg env audio =
     (case audio of
        BytesIO audio_content \<Rightarrow>
          transcribe_uploaded cfg env audio_content (''audio-'' @ uuid4 env @ ''.webm'')
      | FilePath path \<Rightarrow>
          (case read_file env path of
             None \<Rightarrow> ([], [])
           | Some audio_content \<Rightarrow> transcribe_uploaded cfg env audio_content (basename path))
      | OtherObject \<Rightarrow> ([], []))"

section \<open>Request orchestrator: \<^verbatim>\<open>main.py\<close>\<close>

subsection \<open>The store\<close>

text \<open>
  Modelled from the spec: \<^verbatim>\<open>app/models.py\<close> is not among the sources. The tables carry
  the columns of section 3 of the specification that the handlers read or write (ids as
  numbers; the message id and the timestamps, which no handler reads, are left out). A
  chat id is a primary key: a commit that would store a second chat under an id already
  stored fails. Rows are kept in insertion order.
\<close>

record role_row =
  r_id :: nat
  r_name :: string
  r_description :: string
  r_system_prompt :: string
  r_few_shot_examples :: "example list option"
  r_is_active :: bool

record chat_row =
  c_id :: nat
  c_user_id :: nat
  c_role_id :: nat
  c_title :: string

record message_row =
  m_chat_id :: nat
  m_sender_type :: string
  m_content :: string
  m_order_in_chat :: nat

record db =
  db_roles :: "role_row list"
  db_chats :: "chat_row list"
  db_messages :: "message_row list"

text \<open>
  How a handler ends: \<^verbatim>\<open>HTTPException(status_code, detail)\<close>, or an exception nothing
  in the handler catches (named by its class).
\<close>

datatype failure = HTTPException nat string | Unhandled string

text \<open>
  What running a handler on a store yields: the store as it stands after each
  \<^verbatim>\<open>db.commit()\<close>, in order; the calls made to remote services; and the response.
\<close>

record 'a outcome =
  commits :: "db list"
  calls :: "call list"
  response :: "failure + 'a"

definition final_db :: "db \<Rightarrow> 'a outcome \<Rightarrow> db" where
  "final_db d out = last (d # commits out)"

text \<open>\<^verbatim>\<open>db.query(models.Message).filter(models.Message.chat_id == chat_id)\<close>\<close>

definition messages_of :: "db \<Rightarrow> nat \<Rightarrow> message_row list" where
  "messages_of d chat_id = filter (\<lambda>m. m_chat_id m = chat_id) (db_messages d)"

text \<open>\<^verbatim>\<open>... .order_by(models.Message.order_in_chat).all()\<close>\<close>

definition messages_in_order :: "db \<Rightarrow> nat \<Rightarrow> message_row list" where
  "messages_in_order d chat_id = sort_key m_order_in_chat (messages_of d chat_id)"

subsection \<open>\<^verbatim>\<open>create_chat\<close>\<close>

record chat_create =
  cc_role_id :: nat
  cc_title :: "string option"

text \<open>
  Lines 163-189. \<open>new_id\<close> is the id the new chat row is given. The title falls back
  when it is \<^verbatim>\<open>None\<close> or empty.
\<close>

definition create_chat :: "db \<Rightarrow> nat \<Rightarrow> chat_create \<Rightarrow> nat \<Rightarrow> chat_row outcome" where
  "create_chat d current_user req new_id =
     (case find (\<lambda>r. r_id r = cc_role_id req \<and> r_is_active r) (db_roles d) of
        None \<Rightarrow>
          \<lparr>commits = [], calls = [],
           response = Inl (HTTPException 404 ''Role not found or inactive'')\<rparr>
      | Some the_role \<Rightarrow>
          (let db_chat =
                 \<lparr>c_id = new_id, c_user_id = current_user, c_role_id = cc_role_id req,
                  c_title = (case cc_title req of
                               None \<Rightarrow> ''Chat with '' @ r_name the_role
                             | Some t \<Rightarrow> if t \<noteq> [] then t
                                         else ''Chat with '' @ r_name the_role)\<rparr>
           in if new_id \<in> set (map c_id (db_chats d))
              then \<lparr>commits = [], calls = [], response = Inl (Unhandled ''IntegrityError'')\<rparr>
              else
                (let d1 = d\<lparr>db_chats := db_chats d @ [db_chat]\<rparr>;
                     initial_ai_message =
                       \<lparr>m_chat_id = c_id db_chat, m_sender_type = ''ai'',
                        m_content = ''Hello, I am '' @ r_name the_role @
                                    ''. How can I help you today?'',
                        m_order_in_chat = 0\<rparr>;
                     d2 = d1\<lparr>db_messages := db_messages d1 @ [initial_ai_message]\<rparr>
                 in \<lparr>commits = [d1, d2], calls = [], response = Inr db_chat\<rparr>)))"

subsection \<open>\<^verbatim>\<open>send_message\<close>\<close>

text \<open>
  Lines 205-258. \<^verbatim>\<open>get_qwen_response\<close> is called with its default temperature and
  token limit.
\<close>

definition send_message ::
  "gateway \<Rightarrow> db \<Rightarrow> nat \<Rightarrow> nat \<Rightarrow> string \<Rightarrow> message_row outcome" where
  "send_message client d current_user chat_id message_content =
     (case find (\<lambda>c. c_id c = chat_id \<and> c_user_id c = current_user) (db_chats d) of
        None \<Rightarrow>
          \<lparr>commits = [], calls = [],
           response = Inl (HTTPException 404 ''Chat not found or unauthorized'')\<rparr>
      | Some chat \<Rightarrow>
          (let current_message_count = length (messages_of d chat_id);
               db_user_message =
                 \<lparr>m_chat_id = chat_id, m_sender_type = ''user'',
                  m_content = message_content,
                  m_order_in_chat = current_message_count\<rparr>;
               d1 = d\<lparr>db_messages := db_messages d @ [db_user_message]\<rparr>
           in (case find (\<lambda>r. r_id r = c_role_id chat) (db_roles d1) of
                 None \<Rightarrow>
                   \<lparr>commits = [d1], calls = [],
                    response = Inl (HTTPException 500 ''Associated role not found'')\<rparr>
               | Some the_role \<Rightarrow>
                   (let chat_history_db = messages_in_order d1 chat_id;
                        llm_chat_history =
                          map (\<lambda>msg. \<lparr>h_sender_type = m_sender_type msg,
                                      h_content = m_content msg\<rparr>) chat_history_db;
                        (ai_response_content, submitted) =
                          get_qwen_response client (r_system_prompt the_role)
                            llm_chat_history message_content (r_few_shot_examples the_role)
                            (7 / 10) 500 ''deepseek-v3'';
                        db_ai_message =
                          \<lparr>m_chat_id = chat_id, m_sender_type = ''ai'',
                           m_content = ai_response_content,
                           m_order_in_chat = current_message_count + 1\<rparr>;
                        d2 = d1\<lparr>db_messages := db_messages d1 @ [db_ai_message]\<rparr>
                    in \<lparr>commits = [d1, d2], calls = [ChatCompletion submitted],
                        response = Inr db_ai_message\<rparr>))))"

subsection \<open>\<^verbatim>\<open>delete_chats_bulk\<close>\<close>

text \<open>
  Modelled from the spec: what \<^verbatim>\<open>db.delete(chat)\<close> does to the messages of the chat is
  declared in \<^verbatim>\<open>app/models.py\<close>, which is not among the sources; section 3 of the
  specification says that deleting a chat cascades to its messages.
\<close>

definition db_delete :: "db \<Rightarrow> chat_row \<Rightarrow> db" where
  "db_delete d chat =
     d\<lparr>db_chats := filter (\<lambda>c. c_id c \<noteq> c_id chat) (db_chats d),
       db_messages := filter (\<lambda>m. m_chat_id m \<noteq> c_id chat) (db_messages d)\<rparr>"

text \<open>
  Lines 260-279. The body of the \<^verbatim>\<open>try\<close> either raises or reaches its \<^verbatim>\<open>return\<close>;
  \<^verbatim>\<open>except Exception\<close> then turns whatever was raised, the \<^verbatim>\<open>HTTPException\<close> of
  line 270 included, into the one of line 279. \<open>exc_str\<close> is \<^verbatim>\<open>str\<close> on exceptions.
\<close>

definition delete_chats_bulk ::
  "(failure \<Rightarrow> string) \<Rightarrow> db \<Rightarrow> nat \<Rightarrow> nat list \<Rightarrow> nat outcome" where
  "delete_chats_bulk exc_str d current_user chat_ids =
     (let chats_to_delete =
            filter (\<lambda>c. c_id c \<in> set chat_ids \<and> c_user_id c = current_user) (db_chats d);
          try_body =
            (if chats_to_delete = []
             then Inl (HTTPException 404 ''No chats found for deletion or unauthorized'')
             else Inr (foldl db_delete d chats_to_delete))
      in (case try_body of
            Inl e \<Rightarrow>
              \<lparr>commits = [], calls = [],
               response = Inl (HTTPException 500
                 (''Internal server error during bulk deletion: '' @ exc_str e))\<rparr>
          | Inr d1 \<Rightarrow> \<lparr>commits = [d1], calls = [], response = Inr 204\<rparr>))"

subsection \<open>\<^verbatim>\<open>transcribe_audio\<close> and \<^verbatim>\<open>speak_text\<close>\<close>

text \<open>\<^verbatim>\<open>str.startswith\<close>\<close>

fun startswith :: "string \<Rightarrow> string \<Rightarrow> bool" where
  "startswith s [] = True"
| "startswith [] (p # ps) = False"
| "startswith (c # cs) (p # ps) = (c = p \<and> startswith cs ps)"

text \<open>
  The uploaded file: its content type is taken from the headers of the part and is
  \<^verbatim>\<open>None\<close> when the part has none.
\<close>

record upload_file =
  uf_content_type :: "string option"
  uf_filename :: "string option"
  uf_body :: bytes

text \<open>
  Lines 283-304. \<^verbatim>\<open>None.startswith\<close> is an \<^verbatim>\<open>AttributeError\<close> that nothing catches.
\<close>

definition transcribe_audio :: "config \<Rightarrow> environment \<Rightarrow> upload_file \<Rightarrow> string outcome" where
  "transcribe_audio cfg env file =
     (case uf_content_type file of
        None \<Rightarrow> \<lparr>commits = [], calls = [], response = Inl (Unhandled ''AttributeError'')\<rparr>
      | Some content_type \<Rightarrow>
          if \<not> startswith content_type ''audio/''
          then \<lparr>commits = [], calls = [],
                response = Inl (HTTPException 400 ''Only audio files are allowed'')\<rparr>
          else
            (let audio_content = uf_body file;
                 (transcript_text, cs) = get_asr_transcript cfg env (BytesIO audio_content)
             in \<lparr>commits = [], calls = cs, response = Inr transcript_text\<rparr>))"

text \<open>Lines 306-313, with the default voice of \<^verbatim>\<open>get_tts_audio\<close>.\<close>

definition speak_text :: "config \<Rightarrow> environment \<Rightarrow> string \<Rightarrow> bytes outcome" where
  "speak_text cfg env input_text =
     (let (audio_content, cs) = get_tts_audio cfg env input_text ''qiniu_zh_female_tmjxxy''
      in if audio_content = []
         then \<lparr>commits = [], calls = cs,
               response = Inl (HTTPException 500 ''Failed to generate audio'')\<rparr>
         else \<lparr>commits = [], calls = cs, response = Inr audio_content\<rparr>)"

subsection \<open>Sequences of operations\<close>

datatype operation =
    CreateChat nat chat_create nat
  | SendMessage gateway nat nat string

fun step :: "db \<Rightarrow> operation \<Rightarrow> db" where
  "step d (CreateChat current_user req new_id) =
     final_db d (create_chat d current_user req new_id)"
| "step d (SendMessage client current_user chat_id message_content) =
     final_db d (send_message client d current_user chat_id message_content)"

fun run :: "db \<Rightarrow> operation list \<Rightarrow> db" where
  "run d [] = d"
| "run d (x # xs) = run (step d x) xs"

subsection \<open>The ordering invariant\<close>

text \<open>
  What a reader of a chat sees (\<^verbatim>\<open>get_chat_messages\<close> runs the ordered query): the
  position indices are \<open>0, 1, ..., count - 1\<close>, and the first message is the greeting
  of kind \<^verbatim>\<open>ai\<close>.
\<close>

definition chat_ordered :: "db \<Rightarrow> nat \<Rightarrow> bool" where
  "chat_ordered d chat_id =
     (let ms = messages_in_order d chat_id
      in map m_order_in_chat ms = [0..<length ms] \<and> ms \<noteq> [] \<and>
         m_sender_type (hd ms) = ''ai'')"

definition all_chats_ordered :: "db \<Rightarrow> bool" where
  "all_chats_ordered d = list_all (\<lambda>c. chat_ordered d (c_id c)) (db_chats d)"

text \<open>
  The invariant the handlers keep, on the rows in insertion order: every message belongs
  to a stored chat, and the messages of every stored chat were inserted with the indices
  \<open>0, 1, 2, ...\<close>, the first of kind \<^verbatim>\<open>ai\<close>.
\<close>

definition store_inv :: "db \<Rightarrow> bool" where
  "store_inv d =
     ((\<forall>m \<in> set (db_messages d). m_chat_id m \<in> set (map c_id (db_chats d))) \<and>
      (\<forall>c \<in> set (db_chats d).
         map m_order_in_chat (messages_of d (c_id c)) = [0..<length (messages_of d (c_id c))] \<and>
         messages_of d (c_id c) \<noteq> [] \<and>
         m_sender_type (hd (messages_of d (c_id c))) = ''ai''))"

subsection \<open>A small store to evaluate the handlers on\<close>

definition spider_man :: role_row where
  "spider_man =
     \<lparr>r_id = 2, r_name = ''Spider-Man'', r_description = ''Friendly neighbourhood hero'',
      r_system_prompt = ''You are Spider-Man.'',
      r_few_shot_examples = Some [[''user'' \<mapsto> ''u1'', ''ai'' \<mapsto> ''a1'']],
      r_is_active = True\<rparr>"

definition db_fresh :: db where
  "db_fresh = \<lparr>db_roles = [spider_man], db_chats = [], db_messages = []\<rparr>"

definition chat7 :: chat_row where
  "chat7 = \<lparr>c_id = 7, c_user_id = 3, c_role_id = 2, c_title = ''Chat with Spider-Man''\<rparr>"

definition greeting7 :: message_row where
  "greeting7 =
     \<lparr>m_chat_id = 7, m_sender_type = ''ai'',
      m_content = ''Hello, I am Spider-Man. How can I help you today?'',
      m_order_in_chat = 0\<rparr>"

definition db_one_chat :: db where
  "db_one_chat = \<lparr>db_roles = [spider_man], db_chats = [chat7], db_messages = [greeting7]\<rparr>"

definition silent_environment :: environment where
  "silent_environment =
     \<lparr>uuid4 = ''0000'', read_file = (\<lambda>_. None), put_data = (\<lambda>_ _. PutRaises),
      asr_post = (\<lambda>_. RequestError), tts_post = (\<lambda>_. StatusError),
      b64decode = (\<lambda>_. None)\<rparr>"

definition speaking_environment :: environment where
  "speaking_environment =
     \<lparr>uuid4 = ''0000'', read_file = (\<lambda>_. None), put_data = (\<lambda>_ _. PutRaises),
      asr_post = (\<lambda>_. RequestError), tts_post = (\<lambda>_. Payload (Some ''QUJD'')),
      b64decode = (\<lambda>s. if s = ''QUJD'' then Some ''ABC'' else None)\<rparr>"

definition test_config :: config where
  "test_config =
     \<lparr>QINIU_OPENAI_API_KEY = ''key'', QINIU_OPENAI_BASE_URL = ''https://api.example/v1'',
      QINIU_DOMAIN = ''cdn.example''\<rparr>"


section \<open>Properties of the context assembler\<close>

lemma add_few_shot_examples_append:
  "add_few_shot_examples msgs exs = msgs @ concat (map spec_example_turns exs)"
  by (induction exs arbitrary: msgs)
     (auto simp: spec_example_turns_def Let_def split: option.splits)

lemma add_chat_history_append:
  "add_chat_history msgs hist = msgs @ map spec_history_turn hist"
  by (induction hist arbitrary: msgs) (auto simp: spec_history_turn_def Let_def)

lemma build_messages_spec:
  "build_messages S hist new_text fs = spec_turns S (examples_of fs) hist new_text"
  by (cases fs)
     (simp_all add: build_messages_def spec_turns_def examples_of_def Let_def
        add_few_shot_examples_append add_chat_history_append)

lemma get_qwen_response_submitted:
  "snd (get_qwen_response client S hist new_text fs temperature max_tokens model)
     = \<lparr>req_model = model, req_messages = spec_turns S (examples_of fs) hist new_text,
        req_temperature = temperature, req_max_tokens = max_tokens\<rparr>"
  by (simp add: get_qwen_response_def Let_def build_messages_spec
        split: completion.splits list.splits)

lemma get_qwen_response_raises:
  "\<forall>req. client req = Raises \<Longrightarrow>
   fst (get_qwen_response client S hist new_text fs temperature max_tokens model)
     = fallback_reply"
  by (simp add: get_qwen_response_def Let_def)

text \<open>
  C1. Whatever the gateway does, the request \<^verbatim>\<open>get_qwen_response\<close> submits carries
  exactly the turns of the specified construction order: the system turn with the
  prompt, the turns of the few-shot examples in order, one turn per history entry in
  order (\<^verbatim>\<open>user\<close> to \<^verbatim>\<open>user\<close>, \<^verbatim>\<open>ai\<close> to \<^verbatim>\<open>assistant\<close>), and the final user turn
  with the new text; nothing else.
\<close>

theorem get_qwen_response_turn_order:
  "req_messages (snd (get_qwen_response client S hist new_text fs temperature max_tokens model))
     = spec_turns S (examples_of fs) hist new_text"
  by (simp add: get_qwen_response_def Let_def build_messages_spec
        split: completion.splits list.splits)

text \<open>
  C1, at the input of section 8 of the specification: prompt \<open>S\<close>, one example
  \<open>(u1, a1)\<close>, the history \<open>user hi, ai hey\<close> and the new message \<open>bye\<close> give the six
  turns system, user, assistant, user, assistant, user.
\<close>

theorem get_qwen_response_turn_order_example:
  "req_messages (snd (get_qwen_response (\<lambda>_. Choices [''ok'']) ''S''
       [\<lparr>h_sender_type = ''user'', h_content = ''hi''\<rparr>,
        \<lparr>h_sender_type = ''ai'', h_content = ''hey''\<rparr>] ''bye''
       (Some [[''user'' \<mapsto> ''u1'', ''ai'' \<mapsto> ''a1'']]) (7 / 10) 500 ''deepseek-v3''))
   = [\<lparr>role = ''system'', content = ''S''\<rparr>, \<lparr>role = ''user'', content = ''u1''\<rparr>,
      \<lparr>role = ''assistant'', content = ''a1''\<rparr>, \<lparr>role = ''user'', content = ''hi''\<rparr>,
      \<lparr>role = ''assistant'', content = ''hey''\<rparr>, \<lparr>role = ''user'', content = ''bye''\<rparr>]"
  using get_qwen_response_turn_order [of "\<lambda>_. Choices [''ok'']" "''S''"
       "[\<lparr>h_sender_type = ''user'', h_content = ''hi''\<rparr>,
        \<lparr>h_sender_type = ''ai'', h_content = ''hey''\<rparr>]" "''bye''"
       "Some [[''user'' \<mapsto> ''u1'', ''ai'' \<mapsto> ''a1'']]" "7 / 10" 500 "''deepseek-v3''"]
  by (simp add: spec_turns_def examples_of_def spec_example_turns_def spec_history_turn_def)

text \<open>
  C7. An example that has only the \<^verbatim>\<open>user\<close> key, wherever it stands in the list of
  examples, contributes exactly one turn, a user turn, between the turns of the examples
  before it and those of the examples after it; an example that has only the \<^verbatim>\<open>ai\<close>
  key contributes exactly one assistant turn.
\<close>

theorem one_sided_few_shot_example:
  "(ex ''user'' = Some u \<and> ex ''ai'' = None \<longrightarrow>
      req_messages (snd (get_qwen_response client S hist new_text (Some (pre @ ex # post))
                           temperature max_tokens model))
        = [\<lparr>role = ''system'', content = S\<rparr>] @ concat (map spec_example_turns pre) @
          [\<lparr>role = ''user'', content = u\<rparr>] @
          concat (map spec_example_turns post) @ map spec_history_turn hist @
          [\<lparr>role = ''user'', content = new_text\<rparr>]) \<and>
   (ex ''user'' = None \<and> ex ''ai'' = Some a \<longrightarrow>
      req_messages (snd (get_qwen_response client S hist new_text (Some (pre @ ex # post))
                           temperature max_tokens model))
        = [\<lparr>role = ''system'', content = S\<rparr>] @ concat (map spec_example_turns pre) @
          [\<lparr>role = ''assistant'', content = a\<rparr>] @
          concat (map spec_example_turns post) @ map spec_history_turn hist @
          [\<lparr>role = ''user'', content = new_text\<rparr>])"
  by (simp add: get_qwen_response_def Let_def build_messages_spec spec_turns_def
        examples_of_def spec_example_turns_def split: completion.splits list.splits)

text \<open>
  C7, evaluated: a user-only example alone gives system, user, user; an assistant-only
  example alone gives system, assistant, user.
\<close>

theorem one_sided_few_shot_example_witness:
  "req_messages (snd (get_qwen_response (\<lambda>_. Raises) ''S'' [] ''bye''
       (Some [[''user'' \<mapsto> ''u1'']]) (7 / 10) 500 ''deepseek-v3''))
   = [\<lparr>role = ''system'', content = ''S''\<rparr>, \<lparr>role = ''user'', content = ''u1''\<rparr>,
      \<lparr>role = ''user'', content = ''bye''\<rparr>] \<and>
   req_messages (snd (get_qwen_response (\<lambda>_. Raises) ''S'' [] ''bye''
       (Some [[''ai'' \<mapsto> ''a2'']]) (7 / 10) 500 ''deepseek-v3''))
   = [\<lparr>role = ''system'', content = ''S''\<rparr>, \<lparr>role = ''assistant'', content = ''a2''\<rparr>,
      \<lparr>role = ''user'', content = ''bye''\<rparr>]"
proof -
  have user_only: "[''user'' \<mapsto> ''u1''] ''user'' = Some ''u1'' \<and> [''user'' \<mapsto> ''u1''] ''ai'' = None"
    by simp
  have ai_only: "[''ai'' \<mapsto> ''a2''] ''user'' = None \<and> [''ai'' \<mapsto> ''a2''] ''ai'' = Some ''a2''"
    by simp
  show ?thesis
    using user_only ai_only
      one_sided_few_shot_example [of "[''user'' \<mapsto> ''u1'']" "''u1''" "\<lambda>_. Raises" "''S''" "[]"
        "''bye''" "[]" "[]" "7 / 10" 500 "''deepseek-v3''" "''a2''"]
      one_sided_few_shot_example [of "[''ai'' \<mapsto> ''a2'']" "''u1''" "\<lambda>_. Raises" "''S''" "[]"
        "''bye''" "[]" "[]" "7 / 10" 500 "''deepseek-v3''" "''a2''"]
    by simp
qed

section \<open>Properties of the speech operations\<close>

text \<open>
  C8. When the synthesis exchange fails (the post raises, the status check raises, the
  body cannot be read, the \<^verbatim>\<open>data\<close> field is missing or empty, or its base64 text
  does not decode), \<^verbatim>\<open>get_tts_audio\<close> returns zero-length bytes; when the field is
  there and decodes, it returns the decoded bytes. \<^verbatim>\<open>speak_text\<close> answers 500 whenever
  it gets zero-length bytes, and the bytes themselves otherwise.
\<close>

theorem synthesis_failure_and_success:
  "((tts_post env (tts_payload cfg text voice_type)
        \<in> {RequestError, StatusError, MalformedBody, Payload None, Payload (Some [])} \<or>
     (\<exists>b. tts_post env (tts_payload cfg text voice_type) = Payload (Some b) \<and>
          b64decode env b = None))
      \<longrightarrow> fst (get_tts_audio cfg env text voice_type) = []) \<and>
   (tts_post env (tts_payload cfg text voice_type) = Payload (Some base64_audio) \<and>
    base64_audio \<noteq> [] \<and> b64decode env base64_audio = Some audio
      \<longrightarrow> fst (get_tts_audio cfg env text voice_type) = audio) \<and>
   (fst (get_tts_audio cfg env text ''qiniu_zh_female_tmjxxy'') = []
      \<longrightarrow> response (speak_text cfg env text)
            = Inl (HTTPException 500 ''Failed to generate audio'')) \<and>
   (fst (get_tts_audio cfg env text ''qiniu_zh_female_tmjxxy'') \<noteq> []
      \<longrightarrow> response (speak_text cfg env text)
            = Inr (fst (get_tts_audio cfg env text ''qiniu_zh_female_tmjxxy'')))"
  by (auto simp: get_tts_audio_def speak_text_def Let_def split_beta
        split: http_reply.splits option.splits)

text \<open>
  C8, evaluated: an endpoint that answers with an error status makes \<^verbatim>\<open>speak_text\<close>
  fail with 500; an endpoint that answers \<open>QUJD\<close> makes it return the decoded bytes.
\<close>

theorem synthesis_failure_and_success_witness:
  "fst (get_tts_audio test_config silent_environment ''hello'' ''qiniu_zh_female_tmjxxy'') = [] \<and>
   response (speak_text test_config silent_environment ''hello'')
     = Inl (HTTPException 500 ''Failed to generate audio'') \<and>
   fst (get_tts_audio test_config speaking_environment ''hello'' ''qiniu_zh_female_tmjxxy'')
     = ''ABC'' \<and>
   response (speak_text test_config speaking_environment ''hello'') = Inr ''ABC''"
proof -
  have failing: "tts_post silent_environment
                   (tts_payload test_config ''hello'' ''qiniu_zh_female_tmjxxy'') = StatusError"
    by (simp add: silent_environment_def)
  have answering: "tts_post speaking_environment
                     (tts_payload test_config ''hello'' ''qiniu_zh_female_tmjxxy'')
                   = Payload (Some ''QUJD'') \<and> ''QUJD'' \<noteq> [] \<and>
                   b64decode speaking_environment ''QUJD'' = Some ''ABC''"
    by (simp add: speaking_environment_def)
  show ?thesis
    using failing answering
      synthesis_failure_and_success [of silent_environment test_config "''hello''"
        "''qiniu_zh_female_tmjxxy''" "''QUJD''" "''ABC''"]
      synthesis_failure_and_success [of speaking_environment test_config "''hello''"
        "''qiniu_zh_female_tmjxxy''" "''QUJD''" "''ABC''"]
    by simp
qed

text \<open>
  C10 fails on the code for an upload whose part carries no content type: the guard of
  line 285 calls \<^verbatim>\<open>startswith\<close> on \<^verbatim>\<open>None\<close>, the \<^verbatim>\<open>AttributeError\<close> is caught by
  nothing, and the request ends with that exception instead of the 400 the guard is
  there to give. No call leaves the process.
\<close>

theorem transcribe_audio_without_content_type_is_unhandled:
  "response (transcribe_audio test_config silent_environment
               \<lparr>uf_content_type = None, uf_filename = Some ''clip.webm'',
                uf_body = ''abc''\<rparr>)
     = Inl (Unhandled ''AttributeError'') \<and>
   calls (transcribe_audio test_config silent_environment
               \<lparr>uf_content_type = None, uf_filename = Some ''clip.webm'',
                uf_body = ''abc''\<rparr>) = []"
  by (simp add: transcribe_audio_def)

text \<open>The same for every configuration, environment and file without a content type.\<close>

lemma transcribe_audio_no_content_type:
  assumes "uf_content_type file = None"
  shows "response (transcribe_audio cfg env file) = Inl (Unhandled ''AttributeError'') \<and>
         calls (transcribe_audio cfg env file) = []"
  using assms by (simp add: transcribe_audio_def)

text \<open>
  The rest holds on the code. A file whose content type is a string that does not start
  with \<^verbatim>\<open>audio/\<close> is answered with 400, and no call leaves the process: neither the
  upload to the object store nor the transcription request.
\<close>

lemma transcribe_rejects_non_audio:
  assumes "uf_content_type file = Some content_type"
    and "\<not> startswith content_type ''audio/''"
  shows "response (transcribe_audio cfg env file)
           = Inl (HTTPException 400 ''Only audio files are allowed'') \<and>
         calls (transcribe_audio cfg env file) = []"
  using assms by (simp add: transcribe_audio_def)

text \<open>Evaluated on a text file.\<close>

lemma transcribe_rejects_non_audio_text_file:
  "\<not> startswith ''text/plain'' ''audio/'' \<and>
   response (transcribe_audio test_config silent_environment
               \<lparr>uf_content_type = Some ''text/plain'', uf_filename = Some ''notes.txt'',
                uf_body = ''abc''\<rparr>)
     = Inl (HTTPException 400 ''Only audio files are allowed'') \<and>
   calls (transcribe_audio test_config silent_environment
               \<lparr>uf_content_type = Some ''text/plain'', uf_filename = Some ''notes.txt'',
                uf_body = ''abc''\<rparr>) = []"
proof -
  have not_audio: "\<not> startswith ''text/plain'' ''audio/''" by simp
  show ?thesis
    using not_audio
      transcribe_rejects_non_audio [of "\<lparr>uf_content_type = Some ''text/plain'',
        uf_filename = Some ''notes.txt'', uf_body = ''abc''\<rparr>" "''text/plain''"
        test_config silent_environment]
    by simp
qed

text \<open>For contrast: an audio file always reaches the object store.\<close>

lemma transcribe_audio_uploads:
  assumes "uf_content_type file = Some content_type"
    and "startswith content_type ''audio/''"
  shows "calls (transcribe_audio cfg env file) \<noteq> []"
  using assms
  by (auto simp: transcribe_audio_def get_asr_transcript_def transcribe_uploaded_def
        upload_audio_to_qiniu_kodo_def Let_def
        split: prod.splits option.splits put_outcome.splits http_reply.splits if_splits)

section \<open>Properties of the request orchestrator\<close>

subsection \<open>\<^verbatim>\<open>send_message\<close>\<close>

text \<open>
  C6. When no stored chat has the requested id and the caller as owner,
  \<^verbatim>\<open>send_message\<close> answers 404, commits nothing, calls no remote service and leaves
  the store as it was.
\<close>

theorem send_message_not_owned:
  assumes "\<not> (\<exists>c \<in> set (db_chats d). c_id c = chat_id \<and> c_user_id c = current_user)"
  shows "response (send_message client d current_user chat_id message_content)
           = Inl (HTTPException 404 ''Chat not found or unauthorized'') \<and>
         commits (send_message client d current_user chat_id message_content) = [] \<and>
         calls (send_message client d current_user chat_id message_content) = [] \<and>
         final_db d (send_message client d current_user chat_id message_content) = d"
proof -
  have "find (\<lambda>c. c_id c = chat_id \<and> c_user_id c = current_user) (db_chats d) = None"
    using assms by (auto simp: find_None_iff)
  then show ?thesis
    by (simp add: send_message_def final_db_def)
qed

text \<open>
  C6, evaluated: user 4 posting to chat 7 of user 3, and user 3 posting to a chat that
  does not exist.
\<close>

theorem send_message_not_owned_witness:
  "response (send_message (\<lambda>_. Choices [''ok'']) db_one_chat 4 7 ''hi'')
     = Inl (HTTPException 404 ''Chat not found or unauthorized'') \<and>
   final_db db_one_chat (send_message (\<lambda>_. Choices [''ok'']) db_one_chat 4 7 ''hi'')
     = db_one_chat \<and>
   response (send_message (\<lambda>_. Choices [''ok'']) db_one_chat 3 8 ''hi'')
     = Inl (HTTPException 404 ''Chat not found or unauthorized'') \<and>
   final_db db_one_chat (send_message (\<lambda>_. Choices [''ok'']) db_one_chat 3 8 ''hi'')
     = db_one_chat"
proof -
  have foreign: "\<not> (\<exists>c \<in> set (db_chats db_one_chat). c_id c = 7 \<and> c_user_id c = 4)"
    by (simp add: db_one_chat_def chat7_def)
  have missing: "\<not> (\<exists>c \<in> set (db_chats db_one_chat). c_id c = 8 \<and> c_user_id c = 3)"
    by (simp add: db_one_chat_def chat7_def)
  show ?thesis
    using send_message_not_owned [OF foreign,
        where client = "\<lambda>_. Choices [''ok'']" and message_content = "''hi''"]
      send_message_not_owned [OF missing,
        where client = "\<lambda>_. Choices [''ok'']" and message_content = "''hi''"]
    by simp
qed

text \<open>
  C5. When the inference call raises, \<^verbatim>\<open>get_qwen_response\<close> returns the fixed
  fallback string; \<^verbatim>\<open>send_message\<close> on an owned chat whose role is stored then
  succeeds with an \<^verbatim>\<open>ai\<close> message carrying that string, and the chat's messages are
  the old ones followed by the user message at the old count and the fallback message at
  the next index.
\<close>

theorem gateway_failure_fallback:
  assumes raises: "\<forall>req. client req = Raises"
    and owned: "find (\<lambda>c. c_id c = chat_id \<and> c_user_id c = current_user) (db_chats d)
                  = Some chat"
    and has_role: "find (\<lambda>r. r_id r = c_role_id chat) (db_roles d) = Some the_role"
  shows "fst (get_qwen_response client S hist new_text fs temperature max_tokens model)
           = fallback_reply \<and>
         response (send_message client d current_user chat_id message_content)
           = Inr \<lparr>m_chat_id = chat_id, m_sender_type = ''ai'', m_content = fallback_reply,
                  m_order_in_chat = length (messages_of d chat_id) + 1\<rparr> \<and>
         messages_of (final_db d (send_message client d current_user chat_id message_content))
             chat_id
           = messages_of d chat_id @
             [\<lparr>m_chat_id = chat_id, m_sender_type = ''user'', m_content = message_content,
               m_order_in_chat = length (messages_of d chat_id)\<rparr>,
              \<lparr>m_chat_id = chat_id, m_sender_type = ''ai'', m_content = fallback_reply,
               m_order_in_chat = length (messages_of d chat_id) + 1\<rparr>]"
proof -
  have fb: "\<And>S hist new_text fs temperature max_tokens model.
      fst (get_qwen_response client S hist new_text fs temperature max_tokens model)
        = fallback_reply"
    using raises by (rule get_qwen_response_raises)
  show ?thesis
    using owned has_role
    by (simp add: send_message_def Let_def split_beta final_db_def messages_of_def fb)
qed

text \<open>
  C5, evaluated: the owner posts to the chat that holds only its greeting while the
  gateway raises; the fallback reply is stored at index 2, after the user message at 1.
\<close>

theorem gateway_failure_fallback_witness:
  "response (send_message (\<lambda>_. Raises) db_one_chat 3 7 ''hi'')
     = Inr \<lparr>m_chat_id = 7, m_sender_type = ''ai'',
            m_content = ''Sorry, I am unable to respond at the moment.'',
            m_order_in_chat = 2\<rparr> \<and>
   messages_of (final_db db_one_chat (send_message (\<lambda>_. Raises) db_one_chat 3 7 ''hi'')) 7
     = [greeting7,
        \<lparr>m_chat_id = 7, m_sender_type = ''user'', m_content = ''hi'', m_order_in_chat = 1\<rparr>,
        \<lparr>m_chat_id = 7, m_sender_type = ''ai'',
         m_content = ''Sorry, I am unable to respond at the moment.'',
         m_order_in_chat = 2\<rparr>]"
proof -
  have raises: "\<forall>req. (\<lambda>_. Raises) req = Raises" by simp
  have owned: "find (\<lambda>c. c_id c = 7 \<and> c_user_id c = 3) (db_chats db_one_chat) = Some chat7"
    by (simp add: db_one_chat_def chat7_def)
  have has_role: "find (\<lambda>r. r_id r = c_role_id chat7) (db_roles db_one_chat) = Some spider_man"
    by (simp add: db_one_chat_def chat7_def spider_man_def)
  have count: "messages_of db_one_chat 7 = [greeting7]"
    by (simp add: messages_of_def db_one_chat_def greeting7_def)
  show ?thesis
    using gateway_failure_fallback [OF raises owned has_role,
        where message_content = "''hi''" and S = "''S''" and hist = "[]" and new_text = "''t''"
          and fs = None and temperature = 0 and max_tokens = 0 and model = "''m''"]
    by (simp add: count fallback_reply_def)
qed

text \<open>
  C9. On an owned chat whose role is stored, the history read after the first commit
  already holds the user message just written at index \<open>count\<close>; the one request
  submitted to the gateway carries the turns built from that history and the same text,
  so its last turn is the user turn with the new text and the same turn occurs once more
  before it.
\<close>

theorem send_message_duplicates_user_text:
  assumes owned: "find (\<lambda>c. c_id c = chat_id \<and> c_user_id c = current_user) (db_chats d)
                    = Some chat"
    and has_role: "find (\<lambda>r. r_id r = c_role_id chat) (db_roles d) = Some the_role"
  shows "\<lparr>m_chat_id = chat_id, m_sender_type = ''user'', m_content = message_content,
          m_order_in_chat = length (messages_of d chat_id)\<rparr>
           \<in> set (messages_in_order
                    (hd (commits (send_message client d current_user chat_id message_content)))
                    chat_id) \<and>
         calls (send_message client d current_user chat_id message_content)
           = [ChatCompletion
                \<lparr>req_model = ''deepseek-v3'',
                 req_messages =
                   spec_turns (r_system_prompt the_role)
                     (examples_of (r_few_shot_examples the_role))
                     (map (\<lambda>msg. \<lparr>h_sender_type = m_sender_type msg,
                                        h_content = m_content msg\<rparr>)
                        (messages_in_order
                           (hd (commits (send_message client d current_user chat_id
                                           message_content)))
                           chat_id))
                     message_content,
                 req_temperature = 7 / 10, req_max_tokens = 500\<rparr>] \<and>
         (\<forall>req. calls (send_message client d current_user chat_id message_content)
                  = [ChatCompletion req] \<longrightarrow>
                last (req_messages req) = \<lparr>role = ''user'', content = message_content\<rparr> \<and>
                \<lparr>role = ''user'', content = message_content\<rparr>
                  \<in> set (butlast (req_messages req)))"
proof -
  let ?out = "send_message client d current_user chat_id message_content"
  let ?new = "\<lparr>m_chat_id = chat_id, m_sender_type = ''user'', m_content = message_content,
          m_order_in_chat = length (messages_of d chat_id)\<rparr>"
  let ?d1 = "d\<lparr>db_messages := db_messages d @ [?new]\<rparr>"
  let ?hist = "map (\<lambda>msg. \<lparr>h_sender_type = m_sender_type msg, h_content = m_content msg\<rparr>)
                 (messages_in_order ?d1 chat_id)"
  let ?turns = "spec_turns (r_system_prompt the_role)
                  (examples_of (r_few_shot_examples the_role)) ?hist message_content"
  have hd_commits: "hd (commits ?out) = ?d1"
    using owned has_role by (simp add: send_message_def Let_def split_beta)
  have stored: "?new \<in> set (messages_in_order ?d1 chat_id)"
    by (simp add: messages_in_order_def messages_of_def)
  have submitted: "calls ?out =
      [ChatCompletion \<lparr>req_model = ''deepseek-v3'', req_messages = ?turns,
                        req_temperature = 7 / 10, req_max_tokens = 500\<rparr>]"
    using owned has_role
    by (simp add: send_message_def Let_def split_beta get_qwen_response_submitted)
  have "spec_history_turn \<lparr>h_sender_type = ''user'', h_content = message_content\<rparr>
          \<in> set (map spec_history_turn ?hist)"
    using stored by force
  then have in_hist: "\<lparr>role = ''user'', content = message_content\<rparr>
          \<in> set (map spec_history_turn ?hist)"
    by (simp add: spec_history_turn_def)
  have last_turn: "last ?turns = \<lparr>role = ''user'', content = message_content\<rparr>"
    by (simp add: spec_turns_def)
  have "butlast ?turns = [\<lparr>role = ''system'', content = r_system_prompt the_role\<rparr>] @
          concat (map spec_example_turns (examples_of (r_few_shot_examples the_role))) @
          map spec_history_turn ?hist"
    by (simp add: spec_turns_def butlast_append)
  with in_hist have twice:
    "\<lparr>role = ''user'', content = message_content\<rparr> \<in> set (butlast ?turns)"
    by simp
  show ?thesis
    using stored submitted last_turn twice by (simp add: hd_commits)
qed

text \<open>
  C9, evaluated: the owner sends \<open>hi\<close> to the chat that holds only its greeting; the
  request ends with the user turn \<open>hi\<close> twice.
\<close>

theorem send_message_duplicates_user_text_witness:
  "calls (send_message (\<lambda>_. Choices [''ok'']) db_one_chat 3 7 ''hi'')
     = [ChatCompletion
          \<lparr>req_model = ''deepseek-v3'',
           req_messages =
             [\<lparr>role = ''system'', content = ''You are Spider-Man.''\<rparr>,
              \<lparr>role = ''user'', content = ''u1''\<rparr>,
              \<lparr>role = ''assistant'', content = ''a1''\<rparr>,
              \<lparr>role = ''assistant'',
               content = ''Hello, I am Spider-Man. How can I help you today?''\<rparr>,
              \<lparr>role = ''user'', content = ''hi''\<rparr>,
              \<lparr>role = ''user'', content = ''hi''\<rparr>],
           req_temperature = 7 / 10, req_max_tokens = 500\<rparr>]"
proof -
  have owned: "find (\<lambda>c. c_id c = 7 \<and> c_user_id c = 3) (db_chats db_one_chat) = Some chat7"
    by (simp add: db_one_chat_def chat7_def)
  have has_role: "find (\<lambda>r. r_id r = c_role_id chat7) (db_roles db_one_chat) = Some spider_man"
    by (simp add: db_one_chat_def chat7_def spider_man_def)
  have first_commit:
    "messages_in_order
       (hd (commits (send_message (\<lambda>_. Choices [''ok'']) db_one_chat 3 7 ''hi''))) 7
     = [greeting7,
        \<lparr>m_chat_id = 7, m_sender_type = ''user'', m_content = ''hi'', m_order_in_chat = 1\<rparr>]"
    using owned has_role
    by (simp add: send_message_def Let_def split_beta messages_in_order_def messages_of_def
          db_one_chat_def greeting7_def)
  show ?thesis
    using send_message_duplicates_user_text [OF owned has_role,
        where client = "\<lambda>_. Choices [''ok'']" and message_content = "''hi''"]
    by (simp add: first_commit spec_turns_def examples_of_def spec_example_turns_def
          spec_history_turn_def spider_man_def greeting7_def)
qed

subsection \<open>\<^verbatim>\<open>create_chat\<close>\<close>

text \<open>
  C3, as stated, fails: \<^verbatim>\<open>create_chat\<close> commits the chat row and the greeting
  separately. After the first commit of a creation on a store without chats, the store
  holds the new chat and no message at all.
\<close>

theorem create_chat_first_commit_has_no_greeting:
  "db_chats (hd (commits (create_chat db_fresh 3 \<lparr>cc_role_id = 2, cc_title = None\<rparr> 7)))
     = [chat7] \<and>
   db_messages (hd (commits (create_chat db_fresh 3 \<lparr>cc_role_id = 2, cc_title = None\<rparr> 7)))
     = []"
  by (simp add: create_chat_def db_fresh_def spider_man_def chat7_def Let_def)

text \<open>
  C3, amended. Creating a chat for an active role \<open>R\<close> under an id no stored chat has
  succeeds with two commits: the first adds the chat row and no message, the second adds
  the message of kind \<^verbatim>\<open>ai\<close> at position 0 whose content is the greeting built around
  the name of \<open>R\<close>. So once \<^verbatim>\<open>create_chat\<close> has returned, the chat row and its greeting
  are both stored, and the greeting is never stored without the chat row.
\<close>

theorem create_chat_greeting:
  assumes active: "find (\<lambda>r. r_id r = cc_role_id req \<and> r_is_active r) (db_roles d) = Some R"
    and unused: "new_id \<notin> set (map c_id (db_chats d))"
  shows "\<exists>chat d1 d2.
           response (create_chat d current_user req new_id) = Inr chat \<and>
           c_id chat = new_id \<and> c_user_id chat = current_user \<and>
           c_role_id chat = cc_role_id req \<and>
           commits (create_chat d current_user req new_id) = [d1, d2] \<and>
           final_db d (create_chat d current_user req new_id) = d2 \<and>
           db_chats d1 = db_chats d @ [chat] \<and> db_messages d1 = db_messages d \<and>
           db_chats d2 = db_chats d @ [chat] \<and>
           db_messages d2 = db_messages d @
             [\<lparr>m_chat_id = new_id, m_sender_type = ''ai'',
               m_content = ''Hello, I am '' @ r_name R @ ''. How can I help you today?'',
               m_order_in_chat = 0\<rparr>]"
  using assms by (simp add: create_chat_def Let_def final_db_def)

text \<open>
  C3 amended, evaluated: user 3 creates chat 7 with Spider-Man on the store without
  chats; afterwards the store holds chat 7 and its greeting.
\<close>

theorem create_chat_greeting_witness:
  "response (create_chat db_fresh 3 \<lparr>cc_role_id = 2, cc_title = None\<rparr> 7) = Inr chat7 \<and>
   final_db db_fresh (create_chat db_fresh 3 \<lparr>cc_role_id = 2, cc_title = None\<rparr> 7)
     = db_one_chat"
proof -
  have active: "find (\<lambda>r. r_id r = cc_role_id \<lparr>cc_role_id = 2, cc_title = None\<rparr> \<and> r_is_active r)
                  (db_roles db_fresh) = Some spider_man"
    by (simp add: db_fresh_def spider_man_def)
  have unused: "7 \<notin> set (map c_id (db_chats db_fresh))"
    by (simp add: db_fresh_def)
  obtain chat d1 d2 where
    resp: "response (create_chat db_fresh 3 \<lparr>cc_role_id = 2, cc_title = None\<rparr> 7) = Inr chat"
    and final: "final_db db_fresh (create_chat db_fresh 3 \<lparr>cc_role_id = 2, cc_title = None\<rparr> 7)
                  = d2"
    using create_chat_greeting [OF active unused, where current_user = 3] by blast
  have "chat = chat7"
    using resp by (simp add: create_chat_def db_fresh_def spider_man_def chat7_def Let_def)
  moreover have "d2 = db_one_chat"
    using final
    by (simp add: create_chat_def final_db_def db_fresh_def db_one_chat_def spider_man_def
          chat7_def greeting7_def Let_def)
  ultimately show ?thesis using resp final by simp
qed

subsection \<open>\<^verbatim>\<open>delete_chats_bulk\<close>\<close>

lemma foldl_db_delete_chats:
  "db_chats (foldl db_delete d cs) = filter (\<lambda>c. c_id c \<notin> c_id ` set cs) (db_chats d)"
  by (induction cs arbitrary: d) (auto simp: db_delete_def intro: filter_cong)

lemma foldl_db_delete_messages:
  "db_messages (foldl db_delete d cs)
     = filter (\<lambda>m. m_chat_id m \<notin> c_id ` set cs) (db_messages d)"
  by (induction cs arbitrary: d) (auto simp: db_delete_def intro: filter_cong)

lemma filter_other_chats:
  "k \<notin> A \<Longrightarrow> filter (\<lambda>m. m_chat_id m \<notin> A \<and> m_chat_id m = k) ms
               = filter (\<lambda>m. m_chat_id m = k) ms"
  by (induction ms) auto

lemma filter_deleted_chat:
  "k \<in> A \<Longrightarrow> filter (\<lambda>m. m_chat_id m \<notin> A \<and> m_chat_id m = k) ms = []"
  by (induction ms) auto

text \<open>
  C4: the part about the empty owned subset fails on the code. User 4 asks to delete
  chat 7, which belongs to user 3: the \<^verbatim>\<open>HTTPException\<close> with status 404 is raised
  inside the \<^verbatim>\<open>try\<close>, caught by \<^verbatim>\<open>except Exception\<close> and answered as 500.
\<close>

theorem delete_chats_bulk_not_owned_is_500:
  "response (delete_chats_bulk exc_str db_one_chat 4 [7])
     = Inl (HTTPException 500
         (''Internal server error during bulk deletion: '' @
          exc_str (HTTPException 404 ''No chats found for deletion or unauthorized''))) \<and>
   commits (delete_chats_bulk exc_str db_one_chat 4 [7]) = []"
  by (simp add: delete_chats_bulk_def db_one_chat_def chat7_def Let_def)

text \<open>No request at all is answered with 404.\<close>

lemma delete_chats_bulk_never_404:
  "response (delete_chats_bulk exc_str d current_user chat_ids)
     \<noteq> Inl (HTTPException 404 detail)"
  by (simp add: delete_chats_bulk_def Let_def)

text \<open>
  The rest of C4 holds on the code: a chat of another user stays stored with all its
  messages (chat ids being unique), and a requested chat of the caller goes with all its
  messages.
\<close>

lemma delete_chats_bulk_keeps_foreign_chats:
  assumes "distinct (map c_id (db_chats d))"
    and "c \<in> set (db_chats d)" and "c_user_id c \<noteq> current_user"
  shows "c \<in> set (db_chats (final_db d (delete_chats_bulk exc_str d current_user chat_ids))) \<and>
         messages_of (final_db d (delete_chats_bulk exc_str d current_user chat_ids)) (c_id c)
           = messages_of d (c_id c)"
proof -
  let ?cs = "filter (\<lambda>c. c_id c \<in> set chat_ids \<and> c_user_id c = current_user) (db_chats d)"
  have notin: "c_id c \<notin> c_id ` set ?cs"
  proof
    assume "c_id c \<in> c_id ` set ?cs"
    then obtain c' where c': "c' \<in> set (db_chats d)" "c_user_id c' = current_user"
      "c_id c' = c_id c"
      by auto
    with assms(1,2) have "c' = c"
      by (meson distinct_map inj_onD)
    with c' assms(3) show False by simp
  qed
  have kept: "filter (\<lambda>m. m_chat_id m \<notin> c_id ` set ?cs \<and> m_chat_id m = c_id c)
                (db_messages d)
              = filter (\<lambda>m. m_chat_id m = c_id c) (db_messages d)"
    using notin by (rule filter_other_chats)
  have final: "final_db d (delete_chats_bulk exc_str d current_user chat_ids)
                 = (if ?cs = [] then d else foldl db_delete d ?cs)"
    by (simp add: delete_chats_bulk_def final_db_def Let_def)
  have chats: "c \<in> set (db_chats (foldl db_delete d ?cs))"
    unfolding foldl_db_delete_chats using assms(2) notin by simp
  have msgs: "messages_of (foldl db_delete d ?cs) (c_id c) = messages_of d (c_id c)"
    unfolding messages_of_def foldl_db_delete_messages filter_filter by (rule kept)
  show ?thesis
    unfolding final using assms(2) chats msgs by (cases "?cs = []") simp_all
qed

lemma delete_chats_bulk_deletes_owned_chats:
  assumes "c \<in> set (db_chats d)" and "c_user_id c = current_user"
    and "c_id c \<in> set chat_ids"
  shows "response (delete_chats_bulk exc_str d current_user chat_ids) = Inr 204 \<and>
         c \<notin> set (db_chats (final_db d (delete_chats_bulk exc_str d current_user chat_ids))) \<and>
         messages_of (final_db d (delete_chats_bulk exc_str d current_user chat_ids)) (c_id c)
           = []"
proof -
  let ?cs = "filter (\<lambda>c. c_id c \<in> set chat_ids \<and> c_user_id c = current_user) (db_chats d)"
  have in_cs: "c \<in> set ?cs" using assms by simp
  have nonempty: "?cs \<noteq> []"
  proof
    assume "?cs = []"
    with in_cs show False by (metis empty_iff empty_set)
  qed
  have listed: "c_id c \<in> c_id ` set ?cs"
    using in_cs by (rule imageI)
  have gone: "filter (\<lambda>m. m_chat_id m \<notin> c_id ` set ?cs \<and> m_chat_id m = c_id c)
                (db_messages d) = []"
    using listed by (rule filter_deleted_chat)
  have final: "final_db d (delete_chats_bulk exc_str d current_user chat_ids)
                 = foldl db_delete d ?cs"
    and resp: "response (delete_chats_bulk exc_str d current_user chat_ids) = Inr 204"
    using nonempty by (simp_all add: delete_chats_bulk_def final_db_def Let_def)
  have chats: "c \<notin> set (db_chats (foldl db_delete d ?cs))"
    unfolding foldl_db_delete_chats using listed by simp
  have msgs: "messages_of (foldl db_delete d ?cs) (c_id c) = []"
    unfolding messages_of_def foldl_db_delete_messages filter_filter by (rule gone)
  show ?thesis
    unfolding final using resp chats msgs by simp
qed

subsection \<open>The position indices\<close>

lemma messages_of_unknown_chat:
  assumes "store_inv d" and "cid \<notin> set (map c_id (db_chats d))"
  shows "messages_of d cid = []"
  using assms by (auto simp: store_inv_def messages_of_def filter_empty_conv)

lemma store_inv_create_chat:
  assumes "store_inv d"
  shows "store_inv (final_db d (create_chat d current_user req new_id))"
proof (cases "find (\<lambda>r. r_id r = cc_role_id req \<and> r_is_active r) (db_roles d)")
  case None
  then show ?thesis using assms by (simp add: create_chat_def final_db_def)
next
  case (Some R)
  show ?thesis
  proof (cases "new_id \<in> set (map c_id (db_chats d))")
    case True
    then show ?thesis using assms Some by (simp add: create_chat_def final_db_def Let_def)
  next
    case False
    have none: "messages_of d new_id = []"
      using assms False by (rule messages_of_unknown_chat)
    have others: "\<And>c. c \<in> set (db_chats d) \<Longrightarrow> c_id c \<noteq> new_id"
      using False by auto
    show ?thesis
      using assms Some False none others
      by (auto simp: create_chat_def final_db_def Let_def store_inv_def messages_of_def)
  qed
qed

lemma store_inv_send_message:
  assumes "store_inv d"
  shows "store_inv (final_db d (send_message client d current_user chat_id message_content))"
proof (cases "find (\<lambda>c. c_id c = chat_id \<and> c_user_id c = current_user) (db_chats d)")
  case None
  then show ?thesis using assms by (simp add: send_message_def final_db_def)
next
  case (Some chat)
  then have stored: "chat \<in> set (db_chats d)" and cid: "c_id chat = chat_id"
    by (auto simp: find_Some_iff)
  from stored cid have known: "chat_id \<in> c_id ` set (db_chats d)" by auto
  from assms stored cid have
    idx: "map m_order_in_chat (messages_of d chat_id) = [0..<length (messages_of d chat_id)]"
    and nonempty: "messages_of d chat_id \<noteq> []"
    by (auto simp: store_inv_def)
  show ?thesis
  proof (cases "find (\<lambda>r. r_id r = c_role_id chat) (db_roles d)")
    case None
    with Some assms known idx nonempty show ?thesis
      by (auto simp: send_message_def final_db_def Let_def store_inv_def messages_of_def)
  next
    case (Some R)
    with \<open>find _ (db_chats d) = Some chat\<close> assms known idx nonempty show ?thesis
      by (auto simp: send_message_def final_db_def Let_def split_beta store_inv_def
            messages_of_def)
  qed
qed

lemma store_inv_step: "store_inv d \<Longrightarrow> store_inv (step d x)"
  by (cases x) (simp_all add: store_inv_create_chat store_inv_send_message)

lemma store_inv_run: "store_inv d \<Longrightarrow> store_inv (run d xs)"
  by (induction xs arbitrary: d) (simp_all add: store_inv_step)

lemma store_inv_ordered:
  assumes "store_inv d"
  shows "all_chats_ordered d"
proof -
  have "chat_ordered d (c_id c)" if "c \<in> set (db_chats d)" for c
  proof -
    from assms that have
      idx: "map m_order_in_chat (messages_of d (c_id c))
              = [0..<length (messages_of d (c_id c))]"
      and rest: "messages_of d (c_id c) \<noteq> []"
        "m_sender_type (hd (messages_of d (c_id c))) = ''ai''"
      by (auto simp: store_inv_def)
    have "sorted (map m_order_in_chat (messages_of d (c_id c)))"
      by (subst idx) simp
    then have "messages_in_order d (c_id c) = messages_of d (c_id c)"
      unfolding messages_in_order_def by (rule sort_key_id_if_sorted)
    with idx rest show ?thesis by (simp add: chat_ordered_def)
  qed
  then show ?thesis by (simp add: all_chats_ordered_def list_all_iff)
qed

text \<open>
  C2. Start from a store without chats and messages and run any sequence of
  \<^verbatim>\<open>create_chat\<close> and \<^verbatim>\<open>send_message\<close> requests, each to its end, whatever the callers,
  ids, texts and gateway answers. In the store reached, the messages of every stored
  chat, read in index order, carry the indices \<open>0, 1, ..., count - 1\<close>, there is at
  least one, and the first is of kind \<^verbatim>\<open>ai\<close>.
\<close>

theorem position_indices_gapless:
  assumes "db_chats d = []" and "db_messages d = []"
  shows "all_chats_ordered (run d ops)"
proof -
  have "store_inv d" using assms by (simp add: store_inv_def)
  then have "store_inv (run d ops)" by (rule store_inv_run)
  then show ?thesis by (rule store_inv_ordered)
qed

text \<open>
  C2, evaluated: user 3 creates chat 7 and posts to it twice, the gateway raising the
  first time and answering the second; the five messages of chat 7 carry the indices
  0 to 4.
\<close>

theorem position_indices_gapless_witness:
  "db_chats db_fresh = [] \<and> db_messages db_fresh = [] \<and>
   all_chats_ordered
     (run db_fresh [CreateChat 3 \<lparr>cc_role_id = 2, cc_title = None\<rparr> 7,
                    SendMessage (\<lambda>_. Raises) 3 7 ''hi'',
                    SendMessage (\<lambda>_. Choices [''hey'']) 3 7 ''again'']) \<and>
   map m_order_in_chat
     (messages_in_order
        (run db_fresh [CreateChat 3 \<lparr>cc_role_id = 2, cc_title = None\<rparr> 7,
                       SendMessage (\<lambda>_. Raises) 3 7 ''hi'',
                       SendMessage (\<lambda>_. Choices [''hey'']) 3 7 ''again'']) 7)
     = [0, 1, 2, 3, 4]"
proof -
  have no_chats: "db_chats db_fresh = []" and no_messages: "db_messages db_fresh = []"
    by (simp_all add: db_fresh_def)
  have indices:
    "map m_order_in_chat
       (messages_in_order
          (run db_fresh [CreateChat 3 \<lparr>cc_role_id = 2, cc_title = None\<rparr> 7,
                         SendMessage (\<lambda>_. Raises) 3 7 ''hi'',
                         SendMessage (\<lambda>_. Choices [''hey'']) 3 7 ''again'']) 7)
       = [0, 1, 2, 3, 4]"
    by (simp add: create_chat_def send_message_def final_db_def Let_def split_beta
          messages_in_order_def messages_of_def db_fresh_def spider_man_def)
  show ?thesis
    using no_chats no_messages indices
      position_indices_gapless [OF no_chats no_messages,
        where ops = "[CreateChat 3 \<lparr>cc_role_id = 2, cc_title = None\<rparr> 7,
                      SendMessage (\<lambda>_. Raises) 3 7 ''hi'',
                      SendMessage (\<lambda>_. Choices [''hey'']) 3 7 ''again'']"]
    by simp
qed


end
